theory Spec2Isabelle
  imports Complex_Main
begin

section \<open>JavaScript values\<close>

text \<open>
  The application is untyped at run time (the TypeScript source annotates with \<open>any\<close>):
  React state, WebSocket payloads and the persisted history hold arbitrary JavaScript
  values. The values that can arise here are the ones \<open>JSON.parse\<close> produces, plus
  \<open>undefined\<close> (the result of reading a missing property).

  A number is an IEEE-754 double: a finite value, an infinity (\<open>JSON.parse('1e999')\<close>)
  or NaN. \<open>Finite\<close> carries the value as a real; \<open>-0\<close> is identified with \<open>0\<close>, which
  agrees with JavaScript's truthiness and comparisons. A string is a \<open>char list\<close>;
  only emptiness and equality of strings are used.
\<close>

datatype jsnum = Finite real | PosInfinity | NegInfinity | NaN

datatype jsval =
    JUndefined
  | JNull
  | JBool bool
  | JNum jsnum
  | JStr string
  | JArr "jsval list"
  | JObj "(string \<times> jsval) list"

datatype js_error = SyntaxError | TypeError | StorageError

text \<open>ToBoolean: what \<open>if (v)\<close> and \<open>a && v\<close> test.\<close>

fun truthy :: "jsval \<Rightarrow> bool" where
  "truthy JUndefined = False"
| "truthy JNull = False"
| "truthy (JBool b) = b"
| "truthy (JNum n) = (case n of Finite r \<Rightarrow> r \<noteq> 0 | NaN \<Rightarrow> False | _ \<Rightarrow> True)"
| "truthy (JStr s) = (s \<noteq> [])"
| "truthy (JArr xs) = True"
| "truthy (JObj kvs) = True"

text \<open>
  Property read \<open>v.k\<close>. Reading a property of \<open>null\<close> or \<open>undefined\<close> throws a
  TypeError; an object created by \<open>JSON.parse\<close> has its own properties only (first entry
  of the association list); \<open>length\<close> is built in on arrays and strings. The source reads
  the properties \<open>message\<close>, \<open>url\<close> and \<open>length\<close> only, none of which is inherited from
  a prototype otherwise.
\<close>

fun get_prop :: "jsval \<Rightarrow> string \<Rightarrow> js_error + jsval" where
  "get_prop JUndefined k = Inl TypeError"
| "get_prop JNull k = Inl TypeError"
| "get_prop (JObj kvs) k = Inr (case map_of kvs k of Some v \<Rightarrow> v | None \<Rightarrow> JUndefined)"
| "get_prop (JArr xs) k =
     Inr (if k = ''length'' then JNum (Finite (real (length xs))) else JUndefined)"
| "get_prop (JStr s) k =
     Inr (if k = ''length'' then JNum (Finite (real (length s))) else JUndefined)"
| "get_prop (JBool b) k = Inr JUndefined"
| "get_prop (JNum n) k = Inr JUndefined"

text \<open>Element read \<open>v[0]\<close>.\<close>

fun index0 :: "jsval \<Rightarrow> js_error + jsval" where
  "index0 JUndefined = Inl TypeError"
| "index0 JNull = Inl TypeError"
| "index0 (JArr xs) = Inr (case xs of [] \<Rightarrow> JUndefined | x # _ \<Rightarrow> x)"
| "index0 (JStr s) = Inr (case s of [] \<Rightarrow> JUndefined | c # _ \<Rightarrow> JStr [c])"
| "index0 (JObj kvs) = Inr (case map_of kvs ''0'' of Some v \<Rightarrow> v | None \<Rightarrow> JUndefined)"
| "index0 (JBool b) = Inr JUndefined"
| "index0 (JNum n) = Inr JUndefined"

text \<open>
  Spread \<open>...v\<close> inside an array literal: the elements of an array, the characters of a
  string, a TypeError for anything that is not iterable.
\<close>

fun spread :: "jsval \<Rightarrow> js_error + jsval list" where
  "spread (JArr xs) = Inr xs"
| "spread (JStr s) = Inr (map (\<lambda>c. JStr [c]) s)"
| "spread JUndefined = Inl TypeError"
| "spread JNull = Inl TypeError"
| "spread (JBool b) = Inl TypeError"
| "spread (JNum n) = Inl TypeError"
| "spread (JObj kvs) = Inl TypeError"

section \<open>The platform\<close>

text \<open>
  What the source calls but does not define: the JSON codec, the image-metadata probe
  \<open>Image.getSize\<close>, the window width, and double arithmetic. They are parameters of the
  model, so every theorem holds for whatever the platform computes (rounding included).

  \<^item> \<open>JSON_parse s = None\<close> when \<open>JSON.parse(s)\<close> throws a SyntaxError.
  \<^item> \<open>Image_getSize uri = Some (width, height)\<close> when the probe calls its success
    callback, \<open>None\<close> when it calls its failure callback.
  \<^item> \<open>relational_gt0 v\<close> is \<open>v > 0\<close> for a string, an array or an object \<open>v\<close>,
    which JavaScript first converts to a number; it is reached only through a
    \<open>length\<close> property found in a parsed object.
\<close>

record platform =
  JSON_parse :: "string \<Rightarrow> jsval option"
  JSON_stringify :: "jsval \<Rightarrow> string"
  Image_getSize :: "jsval \<Rightarrow> (jsnum \<times> jsnum) option"
  window_width :: jsnum
  num_sub :: "jsnum \<Rightarrow> jsnum \<Rightarrow> jsnum"
  num_mul :: "jsnum \<Rightarrow> jsnum \<Rightarrow> jsnum"
  num_div :: "jsnum \<Rightarrow> jsnum \<Rightarrow> jsnum"
  relational_gt0 :: "jsval \<Rightarrow> js_error + bool"

section \<open>State\<close>

datatype ready_state = CONNECTING | OPEN | CLOSING | CLOSED

datatype logline =
    ErrorGettingImageSize
  | ErrorLoadingHistory
  | ErrorSavingHistory
  | ErrorRefreshingHistory
  | InvalidWSPayload string
  | WSMessage jsval

text \<open>
  The React state of \<open>App\<close> (\<open>status\<close>, \<open>imageUri\<close>, \<open>imageHeight\<close>, \<open>history\<close>,
  \<open>refreshing\<close>), the WebSocket held in \<open>wsRef\<close> (its ready state, \<open>None\<close> while
  \<open>wsRef.current\<close> is \<open>null\<close>, and the messages handed to \<open>send\<close>, oldest first), the
  console, and the device's AsyncStorage: its items and whether a read or a write is
  rejected.
\<close>

record world =
  status :: string
  imageUri :: jsval
  imageHeight :: jsnum
  history :: jsval
  refreshing :: bool
  wsRef :: "ready_state option"
  outbox :: "string list"
  console :: "logline list"
  items :: "string \<rightharpoonup> string"
  read_error :: bool
  write_error :: bool

definition STORAGE_KEY :: string where
  "STORAGE_KEY = ''@door_safety_history''"

text \<open>The dash of the two status strings below is U+2014, here in UTF-8.\<close>

definition em_dash :: string where
  "em_dash = [CHR 0xE2, CHR 0x80, CHR 0x94]"

definition status_disconnected :: string where
  "status_disconnected = ''Disconnected''"

definition status_detected :: string where
  "status_detected = ''Object detected '' @ em_dash @ '' image received''"

definition status_requested :: string where
  "status_requested = ''Requested latest image from server...''"

definition status_cannot_refresh :: string where
  "status_cannot_refresh = ''WebSocket not socket_open '' @ em_dash @ '' cannot refresh''"

definition console_log :: "logline \<Rightarrow> world \<Rightarrow> world" where
  "console_log l w = w\<lparr>console := console w @ [l]\<rparr>"

text \<open>
  The state a mount of \<open>App\<close> starts from (the \<open>useState\<close> and \<open>useRef\<close> initial values):
  only the device's storage survives a restart of the process.
\<close>

definition mount :: "world \<Rightarrow> world" where
  "mount w = w\<lparr>status := status_disconnected, imageUri := JNull,
     imageHeight := Finite 250, history := JArr [], refreshing := False,
     wsRef := None, outbox := [], console := []\<rparr>"

subsection \<open>AsyncStorage\<close>

definition getItem :: "string \<Rightarrow> world \<Rightarrow> js_error + string option" where
  "getItem k w = (if read_error w then Inl StorageError else Inr (items w k))"

definition setItem :: "string \<Rightarrow> string \<Rightarrow> world \<Rightarrow> js_error + world" where
  "setItem k v w =
     (if write_error w then Inl StorageError else Inr (w\<lparr>items := (items w)(k \<mapsto> v)\<rparr>))"

section \<open>Image height\<close>

definition screenWidth :: "platform \<Rightarrow> jsnum" where
  "screenWidth P = num_sub P (window_width P) (Finite 40)"

text \<open>\<open>getDynamicHeight\<close>: the value its promise resolves with; a failed probe is logged.\<close>

definition getDynamicHeight :: "platform \<Rightarrow> jsval \<Rightarrow> world \<Rightarrow> jsnum \<times> world" where
  "getDynamicHeight P uri w =
     (case Image_getSize P uri of
        Some (width, height) \<Rightarrow>
          (let ratio = num_div P height width in (num_mul P (screenWidth P) ratio, w))
      | None \<Rightarrow> (Finite 250, console_log ErrorGettingImageSize w))"

definition updateMainImage :: "platform \<Rightarrow> jsval \<Rightarrow> world \<Rightarrow> world" where
  "updateMainImage P uri w =
     (let (h, w1) = getDynamicHeight P uri w in w1\<lparr>imageUri := uri, imageHeight := h\<rparr>)"

text \<open>
  \<open>HistoryImage\<close>: the \<open>height\<close> state of a history row, before and after the effect that
  probes \<open>item.url\<close> has called back; \<open>sw\<close> is the \<open>screenWidth\<close> prop.
\<close>

definition HistoryImage_initial :: jsnum where
  "HistoryImage_initial = Finite 150"

definition HistoryImage :: "platform \<Rightarrow> jsnum \<Rightarrow> jsval \<Rightarrow> jsnum" where
  "HistoryImage P sw url =
     (case Image_getSize P url of
        Some (width, imgHeight) \<Rightarrow> (let ratio = num_div P imgHeight width in num_mul P sw ratio)
      | None \<Rightarrow> Finite 250)"

section \<open>History store\<close>

text \<open>\<open>saveHistory\<close>: overwrite the stored item with the whole list; a rejected write is logged.\<close>

definition saveHistory :: "platform \<Rightarrow> jsval \<Rightarrow> world \<Rightarrow> world" where
  "saveHistory P newHistory w =
     (case setItem STORAGE_KEY (JSON_stringify P newHistory) w of
        Inr w' \<Rightarrow> w'
      | Inl err \<Rightarrow> console_log ErrorSavingHistory w)"

text \<open>
  \<open>v > 0\<close>: \<open>undefined\<close> converts to NaN, \<open>null\<close> to 0, a boolean to 0 or 1; the
  conversion of a string, an array or an object is the platform's.
\<close>

fun gt0 :: "platform \<Rightarrow> jsval \<Rightarrow> js_error + bool" where
  "gt0 P JUndefined = Inr False"
| "gt0 P JNull = Inr False"
| "gt0 P (JBool b) = Inr b"
| "gt0 P (JNum n) = Inr (case n of Finite r \<Rightarrow> r > 0 | PosInfinity \<Rightarrow> True | _ \<Rightarrow> False)"
| "gt0 P (JStr s) = relational_gt0 P (JStr s)"
| "gt0 P (JArr xs) = relational_gt0 P (JArr xs)"
| "gt0 P (JObj kvs) = relational_gt0 P (JObj kvs)"

definition length_gt0 :: "platform \<Rightarrow> jsval \<Rightarrow> js_error + bool" where
  "length_gt0 P parsed =
     (case get_prop parsed ''length'' of Inl err \<Rightarrow> Inl err | Inr len \<Rightarrow> gt0 P len)"

text \<open>
  \<open>if (parsed.length > 0) updateMainImage(parsed[0].url)\<close>: the argument of the call when
  it is made, \<open>None\<close> when the test is false, the error when an operand throws.
\<close>

definition first_url :: "platform \<Rightarrow> jsval \<Rightarrow> js_error + jsval option" where
  "first_url P parsed =
     (case length_gt0 P parsed of
        Inl err \<Rightarrow> Inl err
      | Inr False \<Rightarrow> Inr None
      | Inr True \<Rightarrow>
          (case index0 parsed of
             Inl err \<Rightarrow> Inl err
           | Inr x \<Rightarrow> (case get_prop x ''url'' of Inl err \<Rightarrow> Inl err | Inr u \<Rightarrow> Inr (Some u))))"

text \<open>
  The load effect (run once, at mount). Everything is inside one \<open>try\<close>: a rejected read,
  a SyntaxError of \<open>JSON.parse\<close> and a TypeError after \<open>setHistory(parsed)\<close> all end in
  the \<open>catch\<close>, which logs; state set before the throw stays set.
\<close>

definition loadHistory :: "platform \<Rightarrow> world \<Rightarrow> world" where
  "loadHistory P w =
     (case getItem STORAGE_KEY w of
        Inl err \<Rightarrow> console_log ErrorLoadingHistory w
      | Inr None \<Rightarrow> w
      | Inr (Some stored) \<Rightarrow>
          if stored = [] then w
          else
            (case JSON_parse P stored of
               None \<Rightarrow> console_log ErrorLoadingHistory w
             | Some parsed \<Rightarrow>
                 (let w1 = w\<lparr>history := parsed\<rparr> in
                  case first_url P parsed of
                    Inl err \<Rightarrow> console_log ErrorLoadingHistory w1
                  | Inr None \<Rightarrow> w1
                  | Inr (Some u) \<Rightarrow> updateMainImage P u w1)))"

section \<open>Live feed connector\<close>

text \<open>\<open>data.message === 'New image' && data.url\<close>, as a condition.\<close>

definition is_new_image :: "jsval \<Rightarrow> js_error + bool" where
  "is_new_image data =
     (case get_prop data ''message'' of
        Inl err \<Rightarrow> Inl err
      | Inr m \<Rightarrow>
          if m = JStr ''New image''
          then (case get_prop data ''url'' of Inl err \<Rightarrow> Inl err | Inr u \<Rightarrow> Inr (truthy u))
          else Inr False)"

text \<open>\<open>data.url\<close>, read again once the condition holds (it cannot throw there).\<close>

definition data_url :: "jsval \<Rightarrow> jsval" where
  "data_url data = (case get_prop data ''url'' of Inr u \<Rightarrow> u | Inl err \<Rightarrow> JUndefined)"

definition newEntry :: "jsval \<Rightarrow> string \<Rightarrow> jsval" where
  "newEntry url timestamp = JObj [(''url'', url), (''time'', JStr timestamp)]"

text \<open>
  The append of a record (the three statements after \<open>newEntry\<close> in \<open>ws.onmessage\<close>):
  \<open>updatedHistory = [entry, ...history]\<close>, \<open>setHistory(updatedHistory)\<close>,
  \<open>saveHistory(updatedHistory)\<close>. Here \<open>history\<close> is the variable the handler's closure
  captured, the argument \<open>captured\<close>; the spread throws when it is not iterable.
\<close>

definition append_entry :: "platform \<Rightarrow> jsval \<Rightarrow> jsval \<Rightarrow> world \<Rightarrow> js_error + world" where
  "append_entry P captured entry w =
     (case spread captured of
        Inl err \<Rightarrow> Inl err
      | Inr rest \<Rightarrow>
          (let updatedHistory = JArr (entry # rest);
               w2 = w\<lparr>history := updatedHistory\<rparr>
           in Inr (saveHistory P updatedHistory w2)))"

text \<open>
  \<open>ws.onmessage\<close> of \<open>src/App.tsx\<close>, for the message \<open>e_data\<close> arriving when
  \<open>new Date().toLocaleString()\<close> is \<open>now\<close>. The handler is created by a run of the
  WebSocket effect and reads the \<open>history\<close> of that render, \<open>captured\<close>. The effect
  depends on \<open>[history]\<close>: after every change of the history the socket is closed and a
  new one is opened with a new handler, so the handler that receives a message is
  \<open>onmessage P (history w)\<close> unless another update is in flight. The whole body is inside
  \<open>try\<close>; the \<open>catch\<close> logs the payload.
\<close>

definition onmessage :: "platform \<Rightarrow> jsval \<Rightarrow> string \<Rightarrow> string \<Rightarrow> world \<Rightarrow> world" where
  "onmessage P captured now e_data w =
     (case JSON_parse P e_data of
        None \<Rightarrow> console_log (InvalidWSPayload e_data) w
      | Some data \<Rightarrow>
          (case is_new_image data of
             Inl err \<Rightarrow> console_log (InvalidWSPayload e_data) w
           | Inr False \<Rightarrow> w
           | Inr True \<Rightarrow>
               (let timestamp = now;
                    w1 = updateMainImage P (data_url data) w;
                    entry = newEntry (data_url data) timestamp
                in case append_entry P captured entry w1 of
                     Inl err \<Rightarrow> console_log (InvalidWSPayload e_data) w1
                   | Inr w3 \<Rightarrow> w3\<lparr>status := status_detected\<rparr>)))"

text \<open>
  \<open>ws.onmessage\<close> of the second, simpler \<open>App\<close> of the repository (no storage, no height
  probe). The list is updated by \<open>setHistory(prev => [entry, ...prev])\<close>, which React runs
  outside the handler's \<open>try\<close>: a spread that throws is not caught.
\<close>

definition onmessage_simple :: "platform \<Rightarrow> string \<Rightarrow> string \<Rightarrow> world \<Rightarrow> js_error + world" where
  "onmessage_simple P now e_data w =
     (case JSON_parse P e_data of
        None \<Rightarrow> Inr (console_log (InvalidWSPayload e_data) w)
      | Some data \<Rightarrow>
          (case is_new_image data of
             Inl err \<Rightarrow> Inr (console_log (InvalidWSPayload e_data) w)
           | Inr False \<Rightarrow> Inr (console_log (WSMessage data) w)
           | Inr True \<Rightarrow>
               (let formattedTime = now;
                    w1 = w\<lparr>imageUri := data_url data, status := status_detected\<rparr>
                in case spread (history w1) of
                     Inl err \<Rightarrow> Inl err
                   | Inr prev \<Rightarrow>
                       Inr (w1\<lparr>history := JArr (newEntry (data_url data) formattedTime # prev)\<rparr>))))"

subsection \<open>Pull to refresh\<close>

definition refresh_request :: jsval where
  "refresh_request = JObj [(''type'', JStr ''refresh_request'')]"

text \<open>
  \<open>onRefresh\<close>: re-read the stored history, then ask the server for the latest image.
  Both steps are inside one \<open>try\<close>, so a rejected read or a SyntaxError skips the second.
  The timer that clears \<open>refreshing\<close> 800 ms later is \<open>refresh_timeout\<close>.
\<close>

definition reload_stored :: "platform \<Rightarrow> world \<Rightarrow> js_error + world" where
  "reload_stored P w =
     (case getItem STORAGE_KEY w of
        Inl err \<Rightarrow> Inl err
      | Inr None \<Rightarrow> Inr w
      | Inr (Some stored) \<Rightarrow>
          if stored = [] then Inr w
          else (case JSON_parse P stored of
                  None \<Rightarrow> Inl SyntaxError
                | Some parsed \<Rightarrow> Inr (w\<lparr>history := parsed\<rparr>)))"

definition onRefresh :: "platform \<Rightarrow> world \<Rightarrow> world" where
  "onRefresh P w =
     (let w0 = w\<lparr>refreshing := True\<rparr> in
      case reload_stored P w0 of
        Inl err \<Rightarrow> console_log ErrorRefreshingHistory w0
      | Inr w1 \<Rightarrow>
          if wsRef w1 = Some OPEN
          then w1\<lparr>outbox := outbox w1 @ [JSON_stringify P refresh_request],
                  status := status_requested\<rparr>
          else w1\<lparr>status := status_cannot_refresh\<rparr>)"

definition refresh_timeout :: "world \<Rightarrow> world" where
  "refresh_timeout w = w\<lparr>refreshing := False\<rparr>"

section \<open>What a re-read of the store yields\<close>

text \<open>
  \<open>stored_history\<close> is the value that \<open>getItem\<close> followed by \<open>JSON.parse\<close> produces:
  \<open>None\<close> when the read is rejected, when there is no item (or an empty one, which
  \<open>if (stored)\<close> skips) and when the text does not parse. \<open>reread_fails\<close> singles out
  the two cases that throw.
\<close>

definition stored_history :: "platform \<Rightarrow> world \<Rightarrow> jsval option" where
  "stored_history P w =
     (if read_error w then None
      else case items w STORAGE_KEY of
             None \<Rightarrow> None
           | Some stored \<Rightarrow> if stored = [] then None else JSON_parse P stored)"

definition reread_fails :: "platform \<Rightarrow> world \<Rightarrow> bool" where
  "reread_fails P w =
     (if read_error w then True
      else case items w STORAGE_KEY of
             None \<Rightarrow> False
           | Some stored \<Rightarrow> if stored = [] then False else JSON_parse P stored = None)"

section \<open>A concrete platform and concrete states\<close>

text \<open>
  A small platform on which the handlers can be run: a JSON codec restricted to the
  handful of texts below, exact arithmetic on finite numbers, and a probe that knows one
  image (800 by 600) on a window 440 wide.
\<close>

definition quoted :: "string \<Rightarrow> string" where
  "quoted s = CHR 0x22 # s @ [CHR 0x22]"

definition example_url :: jsval where
  "example_url = JStr ''https://x/a.png''"

definition example_time :: string where
  "example_time = ''11/3/2026, 9:41:00 AM''"

definition new_image_payload :: string where
  "new_image_payload =
     ''{'' @ quoted ''message'' @ '':'' @ quoted ''New image'' @ '','' @
     quoted ''url'' @ '':'' @ quoted ''https://x/a.png'' @ ''}''"

definition new_image_data :: jsval where
  "new_image_data = JObj [(''message'', JStr ''New image''), (''url'', example_url)]"

definition empty_url_payload :: string where
  "empty_url_payload =
     ''{'' @ quoted ''message'' @ '':'' @ quoted ''New image'' @ '','' @
     quoted ''url'' @ '':'' @ quoted [] @ ''}''"

definition empty_url_data :: jsval where
  "empty_url_data = JObj [(''message'', JStr ''New image''), (''url'', JStr [])]"

definition ping_payload :: string where
  "ping_payload = ''{'' @ quoted ''message'' @ '':'' @ quoted ''ping'' @ ''}''"

definition ping_data :: jsval where
  "ping_data = JObj [(''message'', JStr ''ping'')]"

definition garbage_payload :: string where
  "garbage_payload = ''{oops''"

definition example_entry :: jsval where
  "example_entry = newEntry example_url example_time"

definition example_stored :: string where
  "example_stored =
     ''[{'' @ quoted ''url'' @ '':'' @ quoted ''https://x/a.png'' @ '','' @
     quoted ''time'' @ '':'' @ quoted example_time @ ''}]''"

definition refresh_request_text :: string where
  "refresh_request_text = ''{'' @ quoted ''type'' @ '':'' @ quoted ''refresh_request'' @ ''}''"

definition example_parse :: "string \<Rightarrow> jsval option" where
  "example_parse s =
     (if s = new_image_payload then Some new_image_data
      else if s = empty_url_payload then Some empty_url_data
      else if s = ping_payload then Some ping_data
      else if s = example_stored then Some (JArr [example_entry])
      else if s = ''null'' then Some JNull
      else None)"

definition example_stringify :: "jsval \<Rightarrow> string" where
  "example_stringify v =
     (if v = JArr [example_entry] then example_stored
      else if v = refresh_request then refresh_request_text
      else ''null'')"

fun example_sub :: "jsnum \<Rightarrow> jsnum \<Rightarrow> jsnum" where
  "example_sub (Finite a) (Finite b) = Finite (a - b)"
| "example_sub x y = NaN"

fun example_mul :: "jsnum \<Rightarrow> jsnum \<Rightarrow> jsnum" where
  "example_mul (Finite a) (Finite b) = Finite (a * b)"
| "example_mul x y = NaN"

fun example_div :: "jsnum \<Rightarrow> jsnum \<Rightarrow> jsnum" where
  "example_div (Finite a) (Finite b) = (if b = 0 then NaN else Finite (a / b))"
| "example_div x y = NaN"

definition example_platform :: platform where
  "example_platform =
     \<lparr>JSON_parse = example_parse,
      JSON_stringify = example_stringify,
      Image_getSize = (\<lambda>uri. if uri = example_url then Some (Finite 800, Finite 600) else None),
      window_width = Finite 440,
      num_sub = example_sub,
      num_mul = example_mul,
      num_div = example_div,
      relational_gt0 = (\<lambda>v. Inr False)\<rparr>"

definition missing_url :: jsval where
  "missing_url = JStr ''https://x/missing.png''"

text \<open>
  A device whose storage is empty and healthy, with \<open>App\<close> just mounted; the same device
  with every read rejected, with every write rejected, with a stored text that does not
  parse, with one stored record; and the first one with its socket open.
\<close>

definition fresh_install :: world where
  "fresh_install =
     \<lparr>status = status_disconnected, imageUri = JNull, imageHeight = Finite 250,
      history = JArr [], refreshing = False, wsRef = None, outbox = [], console = [],
      items = Map.empty, read_error = False, write_error = False\<rparr>"

definition rejecting_store :: world where
  "rejecting_store = fresh_install\<lparr>read_error := True\<rparr>"

definition readonly_store :: world where
  "readonly_store = fresh_install\<lparr>write_error := True\<rparr>"

definition corrupt_store :: world where
  "corrupt_store = fresh_install\<lparr>items := [STORAGE_KEY \<mapsto> garbage_payload]\<rparr>"

definition one_record_store :: world where
  "one_record_store = fresh_install\<lparr>items := [STORAGE_KEY \<mapsto> example_stored]\<rparr>"

definition socket_open :: "world \<Rightarrow> world" where
  "socket_open w = w\<lparr>wsRef := Some OPEN\<rparr>"

text \<open>The state after the socket of \<open>w\<close> has delivered \<open>e_data\<close> at \<open>example_time\<close>.\<close>

definition example_receive :: "string \<Rightarrow> world \<Rightarrow> world" where
  "example_receive e_data w = onmessage example_platform (history w) example_time e_data w"

section \<open>Frame facts\<close>

text \<open>Which fields each building block touches.\<close>

lemma console_log_fields:
  "status (console_log l w) = status w"
  "imageUri (console_log l w) = imageUri w"
  "imageHeight (console_log l w) = imageHeight w"
  "history (console_log l w) = history w"
  "refreshing (console_log l w) = refreshing w"
  "wsRef (console_log l w) = wsRef w"
  "outbox (console_log l w) = outbox w"
  "console (console_log l w) = console w @ [l]"
  "items (console_log l w) = items w"
  "read_error (console_log l w) = read_error w"
  "write_error (console_log l w) = write_error w"
  by (simp_all add: console_log_def)

lemma updateMainImage_fields:
  "status (updateMainImage P uri w) = status w"
  "imageUri (updateMainImage P uri w) = uri"
  "history (updateMainImage P uri w) = history w"
  "refreshing (updateMainImage P uri w) = refreshing w"
  "wsRef (updateMainImage P uri w) = wsRef w"
  "outbox (updateMainImage P uri w) = outbox w"
  "items (updateMainImage P uri w) = items w"
  "read_error (updateMainImage P uri w) = read_error w"
  "write_error (updateMainImage P uri w) = write_error w"
  by (simp_all add: updateMainImage_def getDynamicHeight_def console_log_def Let_def
      split: option.splits prod.splits)

lemma saveHistory_fields:
  "status (saveHistory P h w) = status w"
  "imageUri (saveHistory P h w) = imageUri w"
  "imageHeight (saveHistory P h w) = imageHeight w"
  "history (saveHistory P h w) = history w"
  "refreshing (saveHistory P h w) = refreshing w"
  "wsRef (saveHistory P h w) = wsRef w"
  "outbox (saveHistory P h w) = outbox w"
  "read_error (saveHistory P h w) = read_error w"
  "write_error (saveHistory P h w) = write_error w"
  by (simp_all add: saveHistory_def setItem_def console_log_def)

lemma saveHistory_items:
  "items (saveHistory P h w) =
     (if write_error w then items w else (items w)(STORAGE_KEY \<mapsto> JSON_stringify P h))"
  by (simp add: saveHistory_def setItem_def console_log_def)

lemma saveHistory_console:
  "console (saveHistory P h w) =
     (if write_error w then console w @ [ErrorSavingHistory] else console w)"
  by (simp add: saveHistory_def setItem_def console_log_def)

lemma mount_fields:
  "items (mount w) = items w" "read_error (mount w) = read_error w"
  "write_error (mount w) = write_error w" "history (mount w) = JArr []"
  "status (mount w) = status_disconnected" "console (mount w) = []"
  by (simp_all add: mount_def)

subsection \<open>The store as the load and the refresh see it\<close>

lemma stored_history_cong:
  "items w' = items w \<Longrightarrow> read_error w' = read_error w \<Longrightarrow>
   stored_history P w' = stored_history P w"
  by (simp add: stored_history_def)



lemma loadHistory_history:
  "history (loadHistory P w) = (case stored_history P w of Some v \<Rightarrow> v | None \<Rightarrow> history w)"
  by (simp add: loadHistory_def stored_history_def getItem_def Let_def console_log_fields
      updateMainImage_fields split: option.splits sum.splits bool.splits)

lemma loadHistory_store:
  "items (loadHistory P w) = items w" "read_error (loadHistory P w) = read_error w"
  "write_error (loadHistory P w) = write_error w"
  by (simp_all add: loadHistory_def getItem_def Let_def console_log_fields
      updateMainImage_fields split: option.splits sum.splits bool.splits)

lemma reload_stored_eq:
  "reload_stored P w =
     (if reread_fails P w then Inl (if read_error w then StorageError else SyntaxError)
      else Inr (case stored_history P w of Some v \<Rightarrow> w\<lparr>history := v\<rparr> | None \<Rightarrow> w))"
  by (auto simp add: reload_stored_def reread_fails_def stored_history_def getItem_def
      split: option.splits)

lemma onRefresh_history:
  "history (onRefresh P w) = (case stored_history P w of Some v \<Rightarrow> v | None \<Rightarrow> history w)"
  by (simp add: onRefresh_def reload_stored_eq Let_def console_log_fields
      stored_history_def reread_fails_def split: option.splits)

lemma onRefresh_store:
  "items (onRefresh P w) = items w" "read_error (onRefresh P w) = read_error w"
  by (simp_all add: onRefresh_def reload_stored_eq Let_def console_log_fields
      split: option.splits)


subsection \<open>The qualifying message\<close>

lemma is_new_image_truthiness:
  assumes "get_prop data ''message'' = Inr (JStr ''New image'')"
    and "get_prop data ''url'' = Inr url"
  shows "is_new_image data = Inr (truthy url)" and "data_url data = url"
  using assms by (simp_all add: is_new_image_def data_url_def)

lemma falsy_values:
  "\<not> truthy u \<longleftrightarrow>
     u = JUndefined \<or> u = JNull \<or> u = JBool False \<or> u = JNum (Finite 0) \<or> u = JNum NaN
     \<or> u = JStr []"
  by (cases u) (auto split: jsnum.splits)

lemma absent_url:
  "map_of kvs ''url'' = None \<Longrightarrow> get_prop (JObj kvs) ''url'' = Inr JUndefined"
  by simp

lemma append_entry_array:
  "append_entry P (JArr rest) entry w =
     Inr (saveHistory P (JArr (entry # rest)) (w\<lparr>history := JArr (entry # rest)\<rparr>))"
  by (simp add: append_entry_def Let_def)

text \<open>
  The new history is built from the list the handler captured, whatever the history of
  the state is by then.
\<close>

lemma onmessage_qualifying:
  assumes "JSON_parse P e_data = Some data"
    and "get_prop data ''message'' = Inr (JStr ''New image'')"
    and "get_prop data ''url'' = Inr url" and "truthy url"
  shows "onmessage P (JArr rest) now e_data w =
     (saveHistory P (JArr (newEntry url now # rest))
        ((updateMainImage P url w)\<lparr>history := JArr (newEntry url now # rest)\<rparr>))
     \<lparr>status := status_detected\<rparr>"
  using assms
  by (simp add: onmessage_def is_new_image_truthiness Let_def append_entry_array)


subsection \<open>The concrete platform, evaluated\<close>

lemma example_parse_new_image:
  "JSON_parse example_platform new_image_payload = Some new_image_data"
  by (simp add: example_platform_def example_parse_def)

lemma example_parse_empty_url:
  "JSON_parse example_platform empty_url_payload = Some empty_url_data"
  by (simp add: example_platform_def example_parse_def new_image_payload_def
      empty_url_payload_def quoted_def)

lemma example_parse_ping:
  "JSON_parse example_platform ping_payload = Some ping_data"
  by (simp add: example_platform_def example_parse_def new_image_payload_def
      empty_url_payload_def ping_payload_def quoted_def)

lemma example_parse_garbage:
  "JSON_parse example_platform garbage_payload = None"
  by (simp add: example_platform_def example_parse_def new_image_payload_def
      empty_url_payload_def ping_payload_def example_stored_def quoted_def
      garbage_payload_def)

lemma example_parse_stored:
  "JSON_parse example_platform example_stored = Some (JArr [example_entry])"
  by (simp add: example_platform_def example_parse_def example_stored_def
      new_image_payload_def empty_url_payload_def ping_payload_def quoted_def)



lemma example_nonempty:
  "example_stored \<noteq> []" "garbage_payload \<noteq> []"
  by (simp_all add: example_stored_def garbage_payload_def)

lemma new_image_data_props:
  "get_prop new_image_data ''message'' = Inr (JStr ''New image'')"
  "get_prop new_image_data ''url'' = Inr example_url"
  "truthy example_url"
  by (simp_all add: new_image_data_def example_url_def)

lemma empty_url_data_props:
  "get_prop empty_url_data ''message'' = Inr (JStr ''New image'')"
  "get_prop empty_url_data ''url'' = Inr (JStr [])"
  by (simp_all add: empty_url_data_def)

lemma example_store_fields:
  "history fresh_install = JArr []" "items fresh_install STORAGE_KEY = None"
  "\<not> read_error fresh_install" "\<not> write_error fresh_install"
  "wsRef fresh_install = None" "outbox fresh_install = []" "console fresh_install = []"
  "status fresh_install = status_disconnected" "imageUri fresh_install = JNull"
  "history readonly_store = JArr []" "write_error readonly_store"
  "items readonly_store STORAGE_KEY = None" "console readonly_store = []"
  "read_error rejecting_store" "wsRef rejecting_store = None"
  "status rejecting_store = status_disconnected"
  "\<not> read_error corrupt_store" "items corrupt_store STORAGE_KEY = Some garbage_payload"
  "outbox corrupt_store = []"
  "\<not> read_error one_record_store" "items one_record_store STORAGE_KEY = Some example_stored"
  by (simp_all add: fresh_install_def readonly_store_def rejecting_store_def
      corrupt_store_def one_record_store_def)


section \<open>Inbound messages\<close>



text \<open>
  C2. For every inbound message whose payload is not valid JSON, the handler leaves the
  history and the current image unchanged: it logs the payload and does nothing else, and
  no error leaves it.
\<close>

theorem malformed_payload_ignored:
  assumes "JSON_parse P e_data = None"
  shows "onmessage P (history w) now e_data w = console_log (InvalidWSPayload e_data) w
     \<and> history (onmessage P (history w) now e_data w) = history w
     \<and> imageUri (onmessage P (history w) now e_data w) = imageUri w
     \<and> onmessage_simple P now e_data w = Inr (console_log (InvalidWSPayload e_data) w)"
  using assms by (simp add: onmessage_def onmessage_simple_def console_log_fields)

theorem malformed_payload_ignored_witness:
  "JSON_parse example_platform garbage_payload = None
   \<and> history (example_receive garbage_payload fresh_install) = JArr []
   \<and> imageUri (example_receive garbage_payload fresh_install) = JNull
   \<and> console (example_receive garbage_payload fresh_install)
       = [InvalidWSPayload garbage_payload]"
  using example_parse_garbage
    malformed_payload_ignored
      [OF example_parse_garbage, where now = example_time and w = fresh_install]
  by (simp add: example_receive_def console_log_fields example_store_fields)

text \<open>
  C6. For every inbound message that decodes to valid JSON but does not pass the
  qualifying test (for instance \<open>{"message":"ping"}\<close>), processing leaves the history, the
  current image and the status unchanged (nothing but the console changes), and no error
  leaves the handler.
\<close>

theorem other_shape_ignored:
  assumes "JSON_parse P e_data = Some data" and "is_new_image data \<noteq> Inr True"
  shows "history (onmessage P (history w) now e_data w) = history w
     \<and> imageUri (onmessage P (history w) now e_data w) = imageUri w
     \<and> status (onmessage P (history w) now e_data w) = status w
     \<and> onmessage P (history w) now e_data w
         = w\<lparr>console := console (onmessage P (history w) now e_data w)\<rparr>
     \<and> (\<exists>w'. onmessage_simple P now e_data w = Inr w'
            \<and> history w' = history w \<and> imageUri w' = imageUri w \<and> status w' = status w
            \<and> w' = w\<lparr>console := console w'\<rparr>)"
  using assms
  by (simp add: onmessage_def onmessage_simple_def console_log_def
      split: sum.splits bool.splits)

theorem other_shape_ignored_witness:
  "JSON_parse example_platform ping_payload = Some ping_data
   \<and> is_new_image ping_data \<noteq> Inr True
   \<and> history (example_receive ping_payload fresh_install) = JArr []
   \<and> imageUri (example_receive ping_payload fresh_install) = JNull
   \<and> status (example_receive ping_payload fresh_install)
       = status_disconnected"
proof -
  have h: "is_new_image ping_data \<noteq> Inr True"
    by (simp add: is_new_image_def ping_data_def)
  show ?thesis
    using example_parse_ping h
      other_shape_ignored
        [OF example_parse_ping h, where now = example_time and w = fresh_install]
    by (simp add: example_receive_def example_store_fields)
qed

text \<open>
  C9. A decoded payload whose \<open>message\<close> is \<open>"New image"\<close> but whose \<open>url\<close> is absent,
  the empty string or any other falsy value fails the qualifying test and is ignored like
  any other shape: no record, no change of the current image, no change of the status
  (the first \<open>App\<close> changes nothing at all, the second one logs the message). The test is
  the truthiness of \<open>url\<close>, whatever its type.
\<close>

theorem falsy_url_ignored:
  assumes "JSON_parse P e_data = Some data"
    and "get_prop data ''message'' = Inr (JStr ''New image'')"
    and "get_prop data ''url'' = Inr u" and "\<not> truthy u"
  shows "is_new_image data = Inr False
     \<and> onmessage P (history w) now e_data w = w
     \<and> onmessage_simple P now e_data w = Inr (console_log (WSMessage data) w)"
  using assms by (simp add: onmessage_def onmessage_simple_def is_new_image_def)

theorem falsy_url_ignored_witness:
  "JSON_parse example_platform empty_url_payload = Some empty_url_data
   \<and> get_prop empty_url_data ''message'' = Inr (JStr ''New image'')
   \<and> get_prop empty_url_data ''url'' = Inr (JStr [])
   \<and> \<not> truthy (JStr [])
   \<and> example_receive empty_url_payload fresh_install = fresh_install"
proof -
  have h: "\<not> truthy (JStr [])" by simp
  show ?thesis
    using example_parse_empty_url empty_url_data_props h
      falsy_url_ignored [OF example_parse_empty_url empty_url_data_props h,
        where now = example_time and w = fresh_install]
    by (simp add: example_receive_def)
qed

text \<open>
  C10. The append is not atomic with persistence: when the device rejects the write, the
  failure is only logged; the history in memory still starts with the new record, the
  status is still the detected string, and the stored item is what it was.
\<close>

theorem persist_failure_keeps_memory:
  assumes "JSON_parse P e_data = Some data"
    and "get_prop data ''message'' = Inr (JStr ''New image'')"
    and "get_prop data ''url'' = Inr url" and "truthy url"
    and "history w = JArr rest"
    and "write_error w"
  shows "history (onmessage P (history w) now e_data w) = JArr (newEntry url now # rest)
     \<and> status (onmessage P (history w) now e_data w) = status_detected
     \<and> items (onmessage P (history w) now e_data w) = items w
     \<and> console (onmessage P (history w) now e_data w)
         = console (updateMainImage P url w) @ [ErrorSavingHistory]"
  using assms(6)
  by (simp add: assms(5) onmessage_qualifying [OF assms(1-4)] saveHistory_fields
      saveHistory_items saveHistory_console updateMainImage_fields)

theorem persist_failure_keeps_memory_witness:
  "JSON_parse example_platform new_image_payload = Some new_image_data
   \<and> get_prop new_image_data ''message'' = Inr (JStr ''New image'')
   \<and> get_prop new_image_data ''url'' = Inr example_url
   \<and> truthy example_url
   \<and> history readonly_store = JArr []
   \<and> write_error readonly_store
   \<and> history (example_receive new_image_payload readonly_store) = JArr [example_entry]
   \<and> status (example_receive new_image_payload readonly_store) = status_detected
   \<and> items (example_receive new_image_payload readonly_store) STORAGE_KEY = None
   \<and> console (example_receive new_image_payload readonly_store) = [ErrorSavingHistory]"
proof -
  have c: "console (updateMainImage example_platform example_url readonly_store) = []"
    by (simp add: updateMainImage_def getDynamicHeight_def example_platform_def
        readonly_store_def fresh_install_def Let_def)
  note t = persist_failure_keeps_memory
             [OF example_parse_new_image new_image_data_props example_store_fields(10)
                 example_store_fields(11), where now = example_time]
  show ?thesis
    using example_parse_new_image new_image_data_props c t
    by (simp add: example_receive_def example_store_fields example_entry_def)
qed

section \<open>The history store\<close>



text \<open>
  C5. The load at startup yields the persisted list when an item is present and parses.
  When there is no item (or an empty one) the history stays the empty list and nothing is
  logged; when the read is rejected or the stored text does not parse, the history stays
  the empty list and the failure is logged, with the status untouched.
\<close>

theorem load_at_startup:
  "(\<not> read_error w \<and> items w STORAGE_KEY = Some stored \<and> stored \<noteq> []
      \<and> JSON_parse P stored = Some parsed
      \<longrightarrow> history (loadHistory P (mount w)) = parsed
          \<and> status (loadHistory P (mount w)) = status_disconnected)
   \<and> (\<not> read_error w \<and> (items w STORAGE_KEY = None \<or> items w STORAGE_KEY = Some [])
      \<longrightarrow> loadHistory P (mount w) = mount w)
   \<and> (read_error w
        \<or> (items w STORAGE_KEY = Some stored \<and> stored \<noteq> [] \<and> JSON_parse P stored = None)
      \<longrightarrow> loadHistory P (mount w) = console_log ErrorLoadingHistory (mount w)
          \<and> history (loadHistory P (mount w)) = JArr []
          \<and> status (loadHistory P (mount w)) = status_disconnected)"
proof (intro conjI impI)
  assume a: "\<not> read_error w \<and> items w STORAGE_KEY = Some stored \<and> stored \<noteq> []
      \<and> JSON_parse P stored = Some parsed"
  then have "stored_history P (mount w) = Some parsed"
    by (simp add: stored_history_def mount_fields)
  then show "history (loadHistory P (mount w)) = parsed"
    by (simp add: loadHistory_history)
  from a show "status (loadHistory P (mount w)) = status_disconnected"
    by (simp add: loadHistory_def getItem_def mount_fields Let_def console_log_fields
        updateMainImage_fields split: sum.splits option.splits bool.splits)
next
  assume "\<not> read_error w \<and> (items w STORAGE_KEY = None \<or> items w STORAGE_KEY = Some [])"
  then show "loadHistory P (mount w) = mount w"
    by (auto simp add: loadHistory_def getItem_def mount_fields)
next
  assume "read_error w
        \<or> (items w STORAGE_KEY = Some stored \<and> stored \<noteq> [] \<and> JSON_parse P stored = None)"
  then show e: "loadHistory P (mount w) = console_log ErrorLoadingHistory (mount w)"
    by (auto simp add: loadHistory_def getItem_def mount_fields)
  show "history (loadHistory P (mount w)) = JArr []"
    by (simp add: e console_log_fields mount_fields)
  show "status (loadHistory P (mount w)) = status_disconnected"
    by (simp add: e console_log_fields mount_fields)
qed

text \<open>One stored record; an empty store; a rejected read; a stored text that does not parse.\<close>

theorem load_at_startup_witness:
  "(\<not> read_error one_record_store
      \<and> items one_record_store STORAGE_KEY = Some example_stored
      \<and> example_stored \<noteq> []
      \<and> JSON_parse example_platform example_stored = Some (JArr [example_entry]))
   \<and> history (loadHistory example_platform (mount one_record_store)) = JArr [example_entry]
   \<and> (\<not> read_error fresh_install \<and> items fresh_install STORAGE_KEY = None)
   \<and> history (loadHistory example_platform (mount fresh_install)) = JArr []
   \<and> console (loadHistory example_platform (mount fresh_install)) = []
   \<and> read_error rejecting_store
   \<and> history (loadHistory example_platform (mount rejecting_store)) = JArr []
   \<and> console (loadHistory example_platform (mount rejecting_store)) = [ErrorLoadingHistory]
   \<and> (items corrupt_store STORAGE_KEY = Some garbage_payload
      \<and> garbage_payload \<noteq> [] \<and> JSON_parse example_platform garbage_payload = None)
   \<and> history (loadHistory example_platform (mount corrupt_store)) = JArr []
   \<and> console (loadHistory example_platform (mount corrupt_store)) = [ErrorLoadingHistory]"
proof -
  have g: "\<not> read_error one_record_store
      \<and> items one_record_store STORAGE_KEY = Some example_stored
      \<and> example_stored \<noteq> []
      \<and> JSON_parse example_platform example_stored = Some (JArr [example_entry])"
    by (simp add: example_store_fields example_nonempty example_parse_stored)
  have f: "\<not> read_error fresh_install
      \<and> (items fresh_install STORAGE_KEY = None \<or> items fresh_install STORAGE_KEY = Some [])"
    by (simp add: example_store_fields)
  have r: "read_error rejecting_store
      \<or> (items rejecting_store STORAGE_KEY = Some garbage_payload \<and> garbage_payload \<noteq> []
          \<and> JSON_parse example_platform garbage_payload = None)"
    by (simp add: example_store_fields)
  have b: "read_error corrupt_store
      \<or> (items corrupt_store STORAGE_KEY = Some garbage_payload \<and> garbage_payload \<noteq> []
          \<and> JSON_parse example_platform garbage_payload = None)"
    by (simp add: example_store_fields example_nonempty example_parse_garbage)
  note t1 = load_at_startup [where w = one_record_store and stored = example_stored
      and P = example_platform and parsed = "JArr [example_entry]",
      THEN conjunct1, rule_format, OF g]
  note t2 = load_at_startup [where w = fresh_install and P = example_platform,
      THEN conjunct2, THEN conjunct1, rule_format, OF f]
  note t3 = load_at_startup [where w = rejecting_store and stored = garbage_payload
      and P = example_platform, THEN conjunct2, THEN conjunct2, rule_format, OF r]
  note t4 = load_at_startup [where w = corrupt_store and stored = garbage_payload
      and P = example_platform, THEN conjunct2, THEN conjunct2, rule_format, OF b]
  show ?thesis
    using g b t1 t2 t3 t4
    by (simp add: console_log_fields mount_fields example_store_fields)
qed

text \<open>
  C8. Loading is idempotent on the history: for every state of the store, loading twice
  with nothing appended in between leaves the same history as loading once. The same
  holds for the re-read that the refresh gesture performs.
\<close>

theorem load_idempotent:
  "history (loadHistory P (loadHistory P w)) = history (loadHistory P w)
   \<and> history (onRefresh P (onRefresh P w)) = history (onRefresh P w)"
proof -
  have "stored_history P (loadHistory P w) = stored_history P w"
    by (rule stored_history_cong) (simp_all add: loadHistory_store)
  moreover have "stored_history P (onRefresh P w) = stored_history P w"
    by (rule stored_history_cong) (simp_all add: onRefresh_store)
  ultimately show ?thesis
    by (simp add: loadHistory_history onRefresh_history split: option.splits)
qed

section \<open>Image height\<close>

text \<open>
  C7. For every image reference whose metadata probe fails, the display height is the
  fixed default 250 and no error arises; when the probe succeeds with a natural width and
  height, the display height is the display width times (height / width), in the
  platform's arithmetic. This holds for the main image and for each history row.
\<close>

theorem probe_height:
  "(Image_getSize P uri = None
      \<longrightarrow> fst (getDynamicHeight P uri w) = Finite 250
          \<and> imageHeight (updateMainImage P uri w) = Finite 250
          \<and> HistoryImage P sw uri = Finite 250)
   \<and> (Image_getSize P uri = Some (width, height)
      \<longrightarrow> fst (getDynamicHeight P uri w) = num_mul P (screenWidth P) (num_div P height width)
          \<and> imageHeight (updateMainImage P uri w)
              = num_mul P (screenWidth P) (num_div P height width)
          \<and> HistoryImage P sw uri = num_mul P sw (num_div P height width))"
  by (simp add: getDynamicHeight_def updateMainImage_def HistoryImage_def Let_def)

text \<open>An unknown image gets 250; the 800 by 600 image on a 400 wide display gets 300.\<close>

theorem probe_height_witness:
  "Image_getSize example_platform missing_url = None
   \<and> imageHeight (updateMainImage example_platform missing_url fresh_install) = Finite 250
   \<and> HistoryImage example_platform (screenWidth example_platform) missing_url = Finite 250
   \<and> Image_getSize example_platform example_url = Some (Finite 800, Finite 600)
   \<and> imageHeight (updateMainImage example_platform example_url fresh_install) = Finite 300
   \<and> HistoryImage example_platform (screenWidth example_platform) example_url = Finite 300"
proof -
  have n: "Image_getSize example_platform missing_url = None"
    by (simp add: example_platform_def example_url_def missing_url_def)
  have y: "Image_getSize example_platform example_url = Some (Finite 800, Finite 600)"
    by (simp add: example_platform_def)
  have a: "num_mul example_platform (screenWidth example_platform)
             (num_div example_platform (Finite 600) (Finite 800)) = Finite 300"
    by (simp add: example_platform_def screenWidth_def)
  note t1 = probe_height [where P = example_platform and uri = missing_url
      and w = fresh_install and sw = "screenWidth example_platform",
      THEN conjunct1, rule_format, OF n]
  note t2 = probe_height [where P = example_platform and uri = example_url
      and width = "Finite 800" and height = "Finite 600"
      and w = fresh_install and sw = "screenWidth example_platform",
      THEN conjunct2, rule_format, OF y]
  show ?thesis
    using n y a t1 t2 by simp
qed

section \<open>The refresh gesture\<close>




end
